theory Spec2Isabelle
  imports Complex_Main
begin

section \<open>Numbers\<close>

text \<open>
  The engine in \<^verbatim>\<open>src/utils/rccCalculations.ts\<close> computes with JavaScript numbers.
  They are modelled as real numbers: every operator of the source is the operator of the
  same name on \<^typ>\<open>real\<close>, so the theorems below are about the formulas the code
  evaluates, not about rounding of IEEE doubles. Where a denominator is zero the source
  produces an infinity or NaN, whereas a quotient of reals with denominator zero is zero;
  at such an input a theorem below relates formulas under that convention and says nothing
  about the IEEE special values.
\<close>

type_synonym number = real

text \<open>
  \<^verbatim>\<open>parseFloat(x.toFixed(2))\<close>: the sign is split off, and the magnitude is rounded to the
  nearest multiple of 1/100, the larger one at a tie (a tie of the real number; the source
  decides it on the binary value of the double).
\<close>

definition toFixed2 :: "number \<Rightarrow> number" where
  "toFixed2 x =
     (if x < 0 then - (of_int \<lfloor>(- x) * 100 + 1 / 2\<rfloor> / 100)
      else of_int \<lfloor>x * 100 + 1 / 2\<rfloor> / 100)"

section \<open>Data model (the declarations of the types module)\<close>

datatype SteelGrade = Fe415 | Fe500 | Fe550

fun steelValue :: "SteelGrade \<Rightarrow> number" where
  "steelValue Fe415 = 415"
| "steelValue Fe500 = 500"
| "steelValue Fe550 = 550"

datatype ConcreteGrade = M20 | M25 | M30 | M35

fun concreteValue :: "ConcreteGrade \<Rightarrow> number" where
  "concreteValue M20 = 20"
| "concreteValue M25 = 25"
| "concreteValue M30 = 30"
| "concreteValue M35 = 35"

datatype SlabType = OneWay | TwoWay

datatype BeamSupportEdge = Short | Long

record SlabSideConfig =
  enabled :: bool
  slabType :: SlabType
  lx :: number
  ly :: number
  supportEdge :: BeamSupportEdge

record DesignInputs =
  slabThickness :: number
  liveLoad :: number
  floorFinish :: number
  leftSlab :: SlabSideConfig
  rightSlab :: SlabSideConfig
  beamWidth :: number
  beamDepth :: number
  beamClearSpan :: number
  effectiveCover :: number
  wallHeight :: number
  wallThickness :: number
  fck :: ConcreteGrade
  fy :: SteelGrade
  mainBarDia :: number
  stirrupBarDia :: number

text \<open>
  The caller in the application component builds its input object with two further
  properties, \<^verbatim>\<open>pointLoads\<close> (objects with \<^verbatim>\<open>id\<close>, \<^verbatim>\<open>value\<close>, \<^verbatim>\<open>distance\<close>) and
  \<^verbatim>\<open>masonryDensity\<close>, and passes it to the same three engine functions. Such an object
  is a record extension of \<^typ>\<open>DesignInputs\<close>; the engine functions are defined on
  every extension, as a structurally typed argument is.
\<close>

record PointLoad =
  pl_id :: string
  pl_value :: number
  pl_distance :: number

record RichInputs = DesignInputs +
  pointLoads :: "PointLoad list"
  masonryDensity :: number

record LoadResult =
  slabSelfWeight :: number
  totalSlabLoadArea :: number
  udlFromLeftSlab :: number
  udlFromRightSlab :: number
  udlTotalSlab :: number
  beamSelfWeight :: number
  wallLoad :: number
  totalDesignUDL :: number

record AnalysisResult =
  maxMoment :: number
  maxShear :: number
  effectiveDepth :: number

text \<open>The object returned by \<^verbatim>\<open>checkDeflection\<close>, spread into the design result.\<close>

record DeflectionResult =
  actualLbyD :: number
  basicLbyD :: number
  modificationFactorKt :: number
  allowableLbyD :: number
  deflectionCheckPassed :: bool

record DesignResult = DeflectionResult +
  muLim :: number
  isDoublyReinforced :: bool
  astRequired :: number
  ptProvided :: number
  numberOfBars :: number
  astProvided :: number
  tauV :: number
  tauC :: number
  shearReinforcementRequired :: bool
  stirrupSpacing :: number

section \<open>The engine\<close>

definition CONCRETE_DENSITY :: number where
  "CONCRETE_DENSITY = 25"

definition MASONRY_DENSITY :: number where
  "MASONRY_DENSITY = 20"

definition PARTIAL_SAFETY_FACTOR_LOAD :: number where
  "PARTIAL_SAFETY_FACTOR_LOAD = 1.5"

subsection \<open>getTauC\<close>

definition points :: "number list" where
  "points = [0.15, 0.25, 0.5, 0.75, 1.0, 1.25, 1.5, 2.0]"

definition m20vals :: "number list" where
  "m20vals = [0.28, 0.36, 0.48, 0.56, 0.62, 0.67, 0.72, 0.79]"

text \<open>
  The loop \<^verbatim>\<open>while (idx < points.length - 1 && ptLimited > points[idx+1]) idx++\<close>,
  started at \<^verbatim>\<open>idx\<close>. Every index it reads is below the length of the table.
\<close>

function findIdx :: "number \<Rightarrow> nat \<Rightarrow> nat" where
  "findIdx ptLimited idx =
     (if idx < length points - 1 \<and> ptLimited > points ! (idx + 1)
      then findIdx ptLimited (idx + 1) else idx)"
  by pat_completeness auto
termination
  by (relation "measure (\<lambda>(p, idx). length points - 1 - idx)") auto

declare findIdx.simps [simp del]

definition getTauC :: "number \<Rightarrow> number \<Rightarrow> number" where
  "getTauC pt fck_n =
     (let ptLimited = min (max pt 0.15) 3.0;
          idx = findIdx ptLimited 0;
          t1 = m20vals ! idx;
          t2 = m20vals ! (min (idx + 1) (length points - 1));
          p1 = points ! idx;
          p2 = points ! (min (idx + 1) (length points - 1));
          tauM20 = (if p2 \<noteq> p1 then t1 + (t2 - t1) * (ptLimited - p1) / (p2 - p1) else t1);
          gradeFactor = 1 + (fck_n - 20) * 0.01
      in toFixed2 (tauM20 * gradeFactor))"

subsection \<open>calculateSlabLoadPerMeter and calculateLoads\<close>

definition calculateSlabLoadPerMeter :: "SlabSideConfig \<Rightarrow> number \<Rightarrow> number" where
  "calculateSlabLoadPerMeter config totalAreaLoad =
     (if \<not> enabled config then 0
      else if slabType config = OneWay then (totalAreaLoad * lx config) / 2
      else if supportEdge config = Short then (totalAreaLoad * lx config) / 3
      else (let beta = ly config / lx config;
                factor = 1 - (1 / (3 * beta\<^sup>2))
            in (totalAreaLoad * lx config) / 2 * factor))"

definition calculateLoads :: "'a DesignInputs_scheme \<Rightarrow> LoadResult" where
  "calculateLoads inputs =
     (let dSlabM = slabThickness inputs / 1000;
          slabSelfWeight_v = dSlabM * CONCRETE_DENSITY;
          totalSlabLoadArea_v = slabSelfWeight_v + liveLoad inputs + floorFinish inputs;
          udlFromLeftSlab_v = calculateSlabLoadPerMeter (leftSlab inputs) totalSlabLoadArea_v;
          udlFromRightSlab_v = calculateSlabLoadPerMeter (rightSlab inputs) totalSlabLoadArea_v;
          udlTotalSlab_v = udlFromLeftSlab_v + udlFromRightSlab_v;
          bM = beamWidth inputs / 1000;
          dM = beamDepth inputs / 1000;
          beamSelfWeight_v = bM * dM * CONCRETE_DENSITY;
          wallThickM = wallThickness inputs / 1000;
          wallLoad_v = wallThickM * wallHeight inputs * MASONRY_DENSITY;
          totalServiceLoad = udlTotalSlab_v + beamSelfWeight_v + wallLoad_v;
          totalDesignUDL_v = totalServiceLoad * PARTIAL_SAFETY_FACTOR_LOAD
      in \<lparr> slabSelfWeight = slabSelfWeight_v,
           totalSlabLoadArea = totalSlabLoadArea_v,
           udlFromLeftSlab = udlFromLeftSlab_v,
           udlFromRightSlab = udlFromRightSlab_v,
           udlTotalSlab = udlTotalSlab_v,
           beamSelfWeight = beamSelfWeight_v,
           wallLoad = wallLoad_v,
           totalDesignUDL = totalDesignUDL_v \<rparr>)"

subsection \<open>analyzeBeam\<close>

definition analyzeBeam :: "'a DesignInputs_scheme \<Rightarrow> LoadResult \<Rightarrow> AnalysisResult" where
  "analyzeBeam inputs loads =
     (let L = beamClearSpan inputs;
          w = totalDesignUDL loads
      in \<lparr> maxMoment = (w * L * L) / 8,
           maxShear = (w * L) / 2,
           effectiveDepth = beamDepth inputs - effectiveCover inputs \<rparr>)"

subsection \<open>checkDeflection\<close>

definition checkDeflection ::
  "number \<Rightarrow> number \<Rightarrow> number \<Rightarrow> number \<Rightarrow> number \<Rightarrow> number \<Rightarrow> DeflectionResult" where
  "checkDeflection spanM effDepthMm astRequired_a astProvided_a b fy_n =
     (let basic = 20;
          pt = (astProvided_a / (b * effDepthMm)) * 100;
          fs = 0.58 * fy_n * (astRequired_a / astProvided_a);
          safePt = max pt 0.1;
          denominator = 0.225 + (0.0032 * fs) - (0.625 * log 10 safePt);
          kt0 = (if denominator > 0 then 1 / denominator else 1.0);
          kt = min (max kt0 0.7) 2.0;
          allowable = basic * kt;
          actual = (spanM * 1000) / effDepthMm
      in \<lparr> actualLbyD = actual,
           basicLbyD = basic,
           modificationFactorKt = kt,
           allowableLbyD = allowable,
           deflectionCheckPassed = (actual \<le> allowable) \<rparr>)"

subsection \<open>designBeam\<close>

definition k_lim_of :: "SteelGrade \<Rightarrow> number" where
  "k_lim_of g =
     (let k0 = 0.138;
          k1 = (if g = Fe500 then 0.133 else k0);
          k2 = (if g = Fe550 then 0.129 else k1)
      in k2)"

definition tcMax_of :: "number \<Rightarrow> number" where
  "tcMax_of fck_n =
     (if fck_n = 40 then 4.0
      else if fck_n \<ge> 30 then 3.5
      else if fck_n \<ge> 25 then 3.1
      else 2.8)"

text \<open>
  The \<^verbatim>\<open>if (tv > tcMax) \<dots> else if (tv < tc) \<dots> else \<dots>\<close> block of \<^verbatim>\<open>designBeam\<close>: it
  yields the two variables the block assigns, \<^verbatim>\<open>stirrupSpacing\<close> (before the final
  \<^verbatim>\<open>Math.floor\<close>) and \<^verbatim>\<open>shearReinforcementRequired\<close>, both initialised to
  \<^verbatim>\<open>0\<close> and \<^verbatim>\<open>false\<close>.
\<close>

definition shearDecision ::
  "number \<Rightarrow> number \<Rightarrow> number \<Rightarrow> number \<Rightarrow> number \<Rightarrow> number \<Rightarrow> number \<Rightarrow> number \<Rightarrow> number \<times> bool" where
  "shearDecision tv tc tcMax Vu b d fy_n stirrupDia =
     (if tv > tcMax then (0, False)
      else if tv < tc then
        (let asv = 2 * (pi / 4) * stirrupDia\<^sup>2;
             s = (asv * 0.87 * fy_n) / (0.4 * b)
         in (min s (min (0.75 * d) 300), False))
      else
        (let Vus = (Vu * 1000) - (tc * b * d);
             asv = 2 * (pi / 4) * stirrupDia\<^sup>2;
             s = (0.87 * fy_n * asv * d) / Vus
         in (min s (min (0.75 * d) 300), True)))"

definition designBeam :: "'a DesignInputs_scheme \<Rightarrow> AnalysisResult \<Rightarrow> DesignResult" where
  "designBeam inputs analysis =
     (let fck_n = concreteValue (fck inputs);
          fy_n = steelValue (fy inputs);
          b = beamWidth inputs;
          Mu = maxMoment analysis;
          Vu = maxShear analysis;
          d = effectiveDepth analysis;
          k_lim = k_lim_of (fy inputs);
          MuLim = k_lim * fck_n * b * d * d / 1000000;
          doubly = (Mu > MuLim);
          ast0 = (if doubly
                  then (let factor = 1 - sqrt (1 - (4.6 * (MuLim * 1000000)) / (fck_n * b * d * d))
                        in (0.5 * fck_n / fy_n) * factor * b * d)
                  else (let factor = 1 - sqrt (max 0 (1 - (4.6 * (Mu * 1000000)) / (fck_n * b * d * d)))
                        in (0.5 * fck_n / fy_n) * factor * b * d));
          astMin = (0.85 * b * d) / fy_n;
          astReq = max ast0 astMin;
          areaOneBar = (pi / 4) * (mainBarDia inputs)\<^sup>2;
          nBars = of_int \<lceil>astReq / areaOneBar\<rceil>;
          astProv = nBars * areaOneBar;
          tv = (Vu * 1000) / (b * d);
          ptProv = (astProv / (b * d)) * 100;
          tc = getTauC ptProv fck_n;
          tcMax = tcMax_of fck_n;
          shear = shearDecision tv tc tcMax Vu b d fy_n (stirrupBarDia inputs);
          deflection = checkDeflection (beamClearSpan inputs) d astReq astProv b fy_n
      in \<lparr> actualLbyD = actualLbyD deflection,
           basicLbyD = basicLbyD deflection,
           modificationFactorKt = modificationFactorKt deflection,
           allowableLbyD = allowableLbyD deflection,
           deflectionCheckPassed = deflectionCheckPassed deflection,
           muLim = MuLim,
           isDoublyReinforced = doubly,
           astRequired = astReq,
           ptProvided = ptProv,
           numberOfBars = nBars,
           astProvided = astProv,
           tauV = toFixed2 tv,
           tauC = tc,
           shearReinforcementRequired = snd shear,
           stirrupSpacing = of_int \<lfloor>fst shear\<rfloor> \<rparr>)"

section \<open>Specification-level definitions\<close>

text \<open>
  The definitions of this section are written from the words of the specification, to be
  compared with the engine above.
\<close>

text \<open>Factored point loads: each force times 1.5, distances unchanged.\<close>

definition spec_factoredPointLoads :: "PointLoad list \<Rightarrow> PointLoad list" where
  "spec_factoredPointLoads ps = map (\<lambda>p. p\<lparr>pl_value := 1.5 * pl_value p\<rparr>) ps"

text \<open>Peak shear with point loads: the UDL peak plus each load's larger end reaction.\<close>

definition spec_peakShear :: "number \<Rightarrow> number \<Rightarrow> PointLoad list \<Rightarrow> number" where
  "spec_peakShear w L ps =
     w * L / 2 + sum_list (map (\<lambda>p. pl_value p * max (pl_distance p) (L - pl_distance p) / L) ps)"

text \<open>The limiting-moment coefficient, the limiting moment and the steel area formula.\<close>

definition spec_k :: "SteelGrade \<Rightarrow> number" where
  "spec_k g = (case g of Fe415 \<Rightarrow> 0.138 | Fe500 \<Rightarrow> 0.133 | Fe550 \<Rightarrow> 0.129)"

definition spec_MuLim :: "SteelGrade \<Rightarrow> number \<Rightarrow> number \<Rightarrow> number \<Rightarrow> number" where
  "spec_MuLim g fck_n b d = spec_k g * fck_n * b * d\<^sup>2 / 1000000"

definition spec_Ast :: "number \<Rightarrow> number \<Rightarrow> number \<Rightarrow> number \<Rightarrow> number \<Rightarrow> number" where
  "spec_Ast M fck_n fy_n b d =
     0.5 * (fck_n / fy_n) * (1 - sqrt (max 0 (1 - 4.6 * M * 1000000 / (fck_n * b * d\<^sup>2)))) * b * d"

text \<open>The maximum permissible shear stress as a step function of the concrete strength.\<close>

definition tcMax_spec :: "number \<Rightarrow> number" where
  "tcMax_spec f = (if f < 25 then 2.8 else if f < 30 then 3.1 else if f < 40 then 3.5 else 4.0)"

text \<open>The modification factor of the deflection check, clamped into the chart range.\<close>

definition spec_kt :: "number \<Rightarrow> number \<Rightarrow> number" where
  "spec_kt fs pt =
     (let den = 0.225 + 0.0032 * fs - 0.625 * log 10 pt;
          raw = (if den > 0 then 1 / den else 1.0)
      in min 2.0 (max 0.7 raw))"

text \<open>The clamp of the modification factor as a function of the denominator alone.\<close>

definition clampKt :: "real \<Rightarrow> real" where
  "clampKt D = min 2.0 (max 0.7 (if D > 0 then 1 / D else 1.0))"

text \<open>
  Linear interpolation in a table of breakpoints: between two neighbouring breakpoints
  the chord, beyond the last breakpoint its value.
\<close>

fun interpolate :: "(number \<times> number) list \<Rightarrow> number \<Rightarrow> number" where
  "interpolate [] x = 0"
| "interpolate [(p, t)] x = t"
| "interpolate ((p1, t1) # (p2, t2) # rest) x =
     (if x \<le> p2 then t1 + (t2 - t1) * (x - p1) / (p2 - p1)
      else interpolate ((p2, t2) # rest) x)"

definition spec_tauM20 :: "number \<Rightarrow> number" where
  "spec_tauM20 x = interpolate (zip points m20vals) x"

text \<open>The value \<^verbatim>\<open>tauM20\<close> that \<^verbatim>\<open>getTauC\<close> computes from \<^verbatim>\<open>ptLimited\<close>.\<close>

definition code_tauM20 :: "number \<Rightarrow> number" where
  "code_tauM20 ptLimited =
     (let idx = findIdx ptLimited 0;
          t1 = m20vals ! idx;
          t2 = m20vals ! (min (idx + 1) (length points - 1));
          p1 = points ! idx;
          p2 = points ! (min (idx + 1) (length points - 1))
      in (if p2 \<noteq> p1 then t1 + (t2 - t1) * (ptLimited - p1) / (p2 - p1) else t1))"

section \<open>Concrete inputs\<close>

text \<open>
  The initial state of the application component: span 3 m, beam 230 by 450 mm, a two-way
  slab on the left bearing on the short edge, M20 concrete and Fe500 steel.
\<close>

definition scenario :: RichInputs where
  "scenario = \<lparr> slabThickness = 125, liveLoad = 3.0, floorFinish = 1.0,
     leftSlab = \<lparr> enabled = True, slabType = TwoWay, lx = 3.0, ly = 4.5, supportEdge = Short \<rparr>,
     rightSlab = \<lparr> enabled = False, slabType = TwoWay, lx = 3.0, ly = 4.5, supportEdge = Long \<rparr>,
     beamWidth = 230, beamDepth = 450, beamClearSpan = 3.0, effectiveCover = 25,
     wallHeight = 3.0, wallThickness = 230, fck = M20, fy = Fe500,
     mainBarDia = 16, stirrupBarDia = 8,
     pointLoads = [], masonryDensity = 20 \<rparr>"

text \<open>The same beam with one point load of 10 kN at midspan, as the caller's add button creates it.\<close>

definition loaded :: RichInputs where
  "loaded = scenario\<lparr>pointLoads := [\<lparr>pl_id = ''p1'', pl_value = 10, pl_distance = 1.5\<rparr>]\<rparr>"

text \<open>The same beam with a lightweight masonry of 10 kN/m3.\<close>

definition lightBlock :: RichInputs where
  "lightBlock = scenario\<lparr>masonryDensity := 10\<rparr>"

text \<open>An analysis result whose shear of 1000 kN overstresses the 230 by 425 mm section.\<close>

definition overstressed :: AnalysisResult where
  "overstressed = \<lparr> maxMoment = 40, maxShear = 1000, effectiveDepth = 425 \<rparr>"

section \<open>Load aggregation\<close>

lemmas load_defs = calculateLoads_def calculateSlabLoadPerMeter_def Let_def CONCRETE_DENSITY_def
  MASONRY_DENSITY_def PARTIAL_SAFETY_FACTOR_LOAD_def

lemma scenario_loads:
  "calculateLoads scenario =
     \<lparr> slabSelfWeight = 3.125, totalSlabLoadArea = 7.125, udlFromLeftSlab = 7.125,
       udlFromRightSlab = 0, udlTotalSlab = 7.125, beamSelfWeight = 2.5875, wallLoad = 13.8,
       totalDesignUDL = 35.26875 \<rparr>"
  by (simp add: load_defs scenario_def)

text \<open>
  Claim C1. For every input, the total design UDL that \<^verbatim>\<open>calculateLoads\<close> returns is 1.5
  times the sum of the four unfactored per-length contributions it returns: the UDL from
  the left slab, the UDL from the right slab, the beam self-weight and the wall load.
\<close>

theorem totalDesignUDL_factored:
  "totalDesignUDL (calculateLoads inputs) =
     1.5 * (udlFromLeftSlab (calculateLoads inputs) + udlFromRightSlab (calculateLoads inputs)
            + beamSelfWeight (calculateLoads inputs) + wallLoad (calculateLoads inputs))"
  by (simp add: calculateLoads_def Let_def PARTIAL_SAFETY_FACTOR_LOAD_def)

text \<open>
  Claim C2. A disabled slab side transfers 0. An enabled side with total area load \<open>w\<close>
  transfers \<open>w Lx / 2\<close> when it spans one way, \<open>w Lx / 3\<close> when it spans two ways and the
  beam carries its short edge, and \<open>(w Lx / 2) (1 - 1 / (3 \<beta>\<^sup>2))\<close> with \<open>\<beta> = Ly / Lx\<close> when it
  spans two ways and the beam carries its long edge. The side \<open>c\<close> is arbitrary; the
  updates fix the three fields that select the case.
\<close>

theorem slab_transfer_per_length:
  "calculateSlabLoadPerMeter (c\<lparr>enabled := False\<rparr>) w = 0
   \<and> calculateSlabLoadPerMeter (c\<lparr>enabled := True, slabType := OneWay\<rparr>) w = w * lx c / 2
   \<and> calculateSlabLoadPerMeter (c\<lparr>enabled := True, slabType := TwoWay, supportEdge := Short\<rparr>) w
        = w * lx c / 3
   \<and> calculateSlabLoadPerMeter (c\<lparr>enabled := True, slabType := TwoWay, supportEdge := Long\<rparr>) w
        = (w * lx c / 2) * (1 - 1 / (3 * (ly c / lx c)\<^sup>2))"
  by (simp add: calculateSlabLoadPerMeter_def Let_def)

text \<open>
  Claim C7, as stated, fails: the wall load is computed with the engine constant
  \<^verbatim>\<open>MASONRY_DENSITY\<close>, not with the density the caller supplies. For the lightweight
  masonry of 10 kN/m3 the engine returns 13.8 kN/m, while thickness/1000 times height times
  the supplied density is 6.9 kN/m.
\<close>

theorem wall_load_ignores_supplied_density:
  "wallLoad (calculateLoads lightBlock) = 13.8
   \<and> (wallThickness lightBlock / 1000) * wallHeight lightBlock * masonryDensity lightBlock = 6.9
   \<and> wallLoad (calculateLoads lightBlock)
        \<noteq> (wallThickness lightBlock / 1000) * wallHeight lightBlock * masonryDensity lightBlock
   \<and> wallLoad (calculateLoads lightBlock) = wallLoad (calculateLoads scenario)"
  by (simp add: load_defs lightBlock_def scenario_def)

text \<open>
  Claim C7, amended. For every input, the wall load per unit length equals
  (wall thickness/1000) times wall height times the fixed engine constant 20, and it does
  not change when the caller-supplied masonry density changes.
\<close>

theorem wall_load_fixed_density:
  "wallLoad (calculateLoads inputs) = (wallThickness inputs / 1000) * wallHeight inputs * 20
   \<and> wallLoad (calculateLoads (inputs\<lparr>masonryDensity := rho\<rparr>)) = wallLoad (calculateLoads inputs)"
  by (simp add: load_defs)

section \<open>Section analysis\<close>

text \<open>
  Claim C6. For every input and every load result with total factored UDL \<open>w\<close>, in
  particular for inputs without point loads and with positive span \<open>L\<close>, the analysis
  returns peak moment \<open>w L\<^sup>2 / 8\<close>, peak shear \<open>w L / 2\<close> and effective depth equal to beam
  depth minus effective cover.
\<close>

theorem udl_only_analysis:
  "maxMoment (analyzeBeam inputs loads) = totalDesignUDL loads * (beamClearSpan inputs)\<^sup>2 / 8
   \<and> maxShear (analyzeBeam inputs loads) = totalDesignUDL loads * beamClearSpan inputs / 2
   \<and> effectiveDepth (analyzeBeam inputs loads) = beamDepth inputs - effectiveCover inputs"
  by (simp add: analyzeBeam_def Let_def power2_eq_square)

text \<open>
  Claim C3, as stated, fails: the engine never reads the point loads. For the beam with
  a 10 kN load at midspan the peak shear it returns is the UDL peak alone, which differs
  from the UDL peak plus the larger end reaction of the factored point load: with
  \<open>w = 35.26875\<close> and \<open>L = 3\<close> the engine returns \<open>w L / 2 = 52.903125\<close>, and the claimed
  value is larger by \<open>15 \<times> 1.5 / 3 = 7.5\<close>.
\<close>

theorem point_load_not_superposed:
  "maxShear (analyzeBeam loaded (calculateLoads loaded)) = 52.903125
   \<and> spec_peakShear (totalDesignUDL (calculateLoads loaded)) (beamClearSpan loaded)
        (spec_factoredPointLoads (pointLoads loaded)) = 60.403125
   \<and> maxShear (analyzeBeam loaded (calculateLoads loaded))
        \<noteq> spec_peakShear (totalDesignUDL (calculateLoads loaded)) (beamClearSpan loaded)
             (spec_factoredPointLoads (pointLoads loaded))"
  by (simp add: analyzeBeam_def load_defs loaded_def scenario_def spec_peakShear_def
        spec_factoredPointLoads_def)

text \<open>
  Claim C3, amended. For every input that carries point loads, neither the load result
  nor the analysis result depends on them: replacing the point loads by any others leaves
  both unchanged, the load result has no point-load component, and the peak shear and the
  peak moment are the UDL values \<open>w L / 2\<close> and \<open>w L\<^sup>2 / 8\<close>.
\<close>

theorem point_loads_ignored:
  "calculateLoads (inputs\<lparr>pointLoads := ps\<rparr>) = calculateLoads inputs
   \<and> analyzeBeam (inputs\<lparr>pointLoads := ps\<rparr>) loads = analyzeBeam inputs loads
   \<and> maxShear (analyzeBeam (inputs\<lparr>pointLoads := ps\<rparr>) loads)
        = totalDesignUDL loads * beamClearSpan inputs / 2
   \<and> maxMoment (analyzeBeam (inputs\<lparr>pointLoads := ps\<rparr>) loads)
        = totalDesignUDL loads * (beamClearSpan inputs)\<^sup>2 / 8"
  by (simp add: analyzeBeam_def calculateLoads_def Let_def power2_eq_square)

section \<open>Flexural design\<close>

lemma k_lim_of_spec: "k_lim_of g = spec_k g"
  by (cases g) (simp_all add: k_lim_of_def spec_k_def)

lemma spec_k_bounds: "0 < spec_k g \<and> spec_k g \<le> 0.138"
  by (cases g) (simp_all add: spec_k_def)

lemma radicand_aux:
  fixes k X :: real
  assumes "4.6 * k \<le> 1"
  shows "0 \<le> 1 - (4.6 * (k * X / 1000000 * 1000000)) / X"
proof (cases "X = 0")
  case True
  then show ?thesis by simp
next
  case False
  then have "(4.6 * (k * X / 1000000 * 1000000)) / X = 4.6 * k"
    by simp
  then show ?thesis using assms by simp
qed

lemma radicand_at_limit:
  "0 \<le> 1 - (4.6 * (spec_k g * f * b * d * d / 1000000 * 1000000)) / (f * b * d * d)"
proof -
  have "4.6 * spec_k g \<le> 1" using spec_k_bounds [of g] by simp
  from radicand_aux [OF this, of "f * b * d * d"] show ?thesis
    by (simp only: mult.assoc)
qed

lemma code_Ast_eq:
  "(0.5 * f / y) * (1 - sqrt (max 0 (1 - (4.6 * (M * 1000000)) / (f * b * d * d)))) * b * d
     = spec_Ast M f y b d"
  by (simp add: spec_Ast_def power2_eq_square mult.assoc)

lemma designBeam_muLim:
  "muLim (designBeam inputs analysis)
     = spec_MuLim (fy inputs) (concreteValue (fck inputs)) (beamWidth inputs) (effectiveDepth analysis)"
  unfolding designBeam_def Let_def
  by (simp only: DesignResult.select_convs k_lim_of_spec spec_MuLim_def power2_eq_square mult.assoc)

lemma designBeam_doubly:
  "isDoublyReinforced (designBeam inputs analysis)
     = (maxMoment analysis > spec_MuLim (fy inputs) (concreteValue (fck inputs)) (beamWidth inputs) (effectiveDepth analysis))"
  unfolding designBeam_def Let_def
  by (simp only: DesignResult.select_convs k_lim_of_spec spec_MuLim_def power2_eq_square mult.assoc)

lemma designBeam_astRequired_raw:
  "astRequired (designBeam inputs analysis) =
    (let fck_n = concreteValue (fck inputs); fy_n = steelValue (fy inputs); b = beamWidth inputs;
         Mu = maxMoment analysis; d = effectiveDepth analysis;
         MuLim = spec_k (fy inputs) * fck_n * b * d * d / 1000000 in
     max (if Mu > MuLim
          then (0.5 * fck_n / fy_n) * (1 - sqrt (1 - (4.6 * (MuLim * 1000000)) / (fck_n * b * d * d))) * b * d
          else (0.5 * fck_n / fy_n) * (1 - sqrt (max 0 (1 - (4.6 * (Mu * 1000000)) / (fck_n * b * d * d)))) * b * d)
         ((0.85 * b * d) / fy_n))"
  unfolding designBeam_def Let_def
  by (simp only: DesignResult.select_convs k_lim_of_spec)

text \<open>
  Claim C4. For every input and analysis result, with \<open>MuLim = k fck b d\<^sup>2 / 1e6\<close> and \<open>k\<close>
  equal to 0.138 for Fe415, 0.133 for Fe500 and 0.129 for Fe550: the limiting moment
  returned is \<open>MuLim\<close>; the doubly-reinforced flag is set exactly when \<open>Mu > MuLim\<close>; and
  the required steel area is the maximum of the code minimum \<open>0.85 b d / fy\<close> and the
  quadratic-formula value with its radicand clamped at 0, taken at \<open>MuLim\<close> when doubly
  reinforced and at \<open>Mu\<close> otherwise. The source takes the root without the clamp in the
  doubly-reinforced branch; there the radicand is \<open>1 - 4.6 k\<close>, which is positive.
\<close>

theorem flexural_design:
  fixes inputs :: "'a DesignInputs_scheme" and analysis :: AnalysisResult
  defines "fck_n \<equiv> concreteValue (fck inputs)"
      and "fy_n \<equiv> steelValue (fy inputs)"
      and "b \<equiv> beamWidth inputs"
      and "d \<equiv> effectiveDepth analysis"
      and "Mu \<equiv> maxMoment analysis"
  defines "MuLim \<equiv> spec_k (fy inputs) * fck_n * b * d\<^sup>2 / 1000000"
  shows "muLim (designBeam inputs analysis) = MuLim
       \<and> isDoublyReinforced (designBeam inputs analysis) = (Mu > MuLim)
       \<and> astRequired (designBeam inputs analysis)
           = max (spec_Ast (if Mu > MuLim then MuLim else Mu) fck_n fy_n b d) (0.85 * b * d / fy_n)"
proof -
  define Mlim where "Mlim = spec_k (fy inputs) * fck_n * b * d * d / 1000000"
  have Mlim: "Mlim = MuLim"
    by (simp add: Mlim_def MuLim_def power2_eq_square mult.assoc)
  have M: "MuLim = spec_MuLim (fy inputs) fck_n b d"
    by (simp add: MuLim_def spec_MuLim_def)
  have rad: "1 - (4.6 * (Mlim * 1000000)) / (fck_n * b * d * d)
               = max 0 (1 - (4.6 * (Mlim * 1000000)) / (fck_n * b * d * d))"
    using radicand_at_limit [of "fy inputs" fck_n b d] unfolding Mlim_def by (simp only: max_absorb2)
  have raw: "astRequired (designBeam inputs analysis) =
     max (if Mu > Mlim
          then (0.5 * fck_n / fy_n) * (1 - sqrt (1 - (4.6 * (Mlim * 1000000)) / (fck_n * b * d * d))) * b * d
          else (0.5 * fck_n / fy_n) * (1 - sqrt (max 0 (1 - (4.6 * (Mu * 1000000)) / (fck_n * b * d * d)))) * b * d)
         ((0.85 * b * d) / fy_n)"
    unfolding designBeam_astRequired_raw Let_def Mlim_def fck_n_def fy_n_def b_def d_def Mu_def ..
  have A: "astRequired (designBeam inputs analysis)
           = max (spec_Ast (if Mu > MuLim then MuLim else Mu) fck_n fy_n b d) (0.85 * b * d / fy_n)"
  proof (cases "Mu > Mlim")
    case True
    have "astRequired (designBeam inputs analysis)
           = max ((0.5 * fck_n / fy_n) * (1 - sqrt (max 0 (1 - (4.6 * (Mlim * 1000000)) / (fck_n * b * d * d)))) * b * d)
                 ((0.85 * b * d) / fy_n)"
      using True rad by (simp only: raw if_True)
    also have "\<dots> = max (spec_Ast Mlim fck_n fy_n b d) (0.85 * b * d / fy_n)"
      by (simp only: code_Ast_eq)
    finally show ?thesis using True by (simp only: Mlim if_True)
  next
    case False
    have "astRequired (designBeam inputs analysis)
           = max ((0.5 * fck_n / fy_n) * (1 - sqrt (max 0 (1 - (4.6 * (Mu * 1000000)) / (fck_n * b * d * d)))) * b * d)
                 ((0.85 * b * d) / fy_n)"
      using False by (simp only: raw if_False)
    also have "\<dots> = max (spec_Ast Mu fck_n fy_n b d) (0.85 * b * d / fy_n)"
      by (simp only: code_Ast_eq)
    finally show ?thesis using False by (simp only: Mlim if_False)
  qed
  show ?thesis
    using A by (simp add: designBeam_muLim designBeam_doubly M fck_n_def b_def d_def Mu_def)
qed

section \<open>Shear design\<close>

lemma tcMax_of_grade: "tcMax_of (concreteValue g) = tcMax_spec (concreteValue g)"
  by (cases g) (simp_all add: tcMax_of_def tcMax_spec_def)

text \<open>
  For an arbitrary number the source's expression tests \<^verbatim>\<open>fck === 40\<close> where the step
  function has \<open>fck \<ge> 40\<close>; the two differ only above 40, and there the source's value is
  the smaller one, so exceeding the step function implies exceeding the source's value.
\<close>

lemma tcMax_of_le_spec: "tcMax_of f \<le> tcMax_spec f"
  by (simp add: tcMax_of_def tcMax_spec_def)

lemma tcMax_of_upto_40: "f \<le> 40 \<Longrightarrow> tcMax_of f = tcMax_spec f"
  by (simp add: tcMax_of_def tcMax_spec_def)

lemma shearDecision_fail:
  "tv > tcMax \<Longrightarrow> shearDecision tv tc tcMax Vu b d fy_n dia = (0, False)"
  by (simp add: shearDecision_def)

text \<open>
  Claim C5. For every input whose nominal shear stress \<open>V 1000 / (b d)\<close> exceeds the
  maximum permissible stress, the design returns stirrup spacing 0 and the flag
  shear-reinforcement-required false. The maximum is the step function of the concrete
  strength of the specification: 2.8 below 25, 3.1 from 25, 3.5 from 30 and 4.0 from 40;
  on the four concrete grades of the data model the expression of the source takes the
  same values.
\<close>

theorem shear_failure_terminal:
  assumes "maxShear analysis * 1000 / (beamWidth inputs * effectiveDepth analysis)
             > tcMax_spec (concreteValue (fck inputs))"
  shows "stirrupSpacing (designBeam inputs analysis) = 0
         \<and> \<not> shearReinforcementRequired (designBeam inputs analysis)"
  unfolding designBeam_def Let_def
  by (simp only: DesignResult.select_convs tcMax_of_grade shearDecision_fail [OF assms]
        fst_conv snd_conv floor_zero of_int_0 simp_thms)

theorem shear_failure_terminal_witness:
  "maxShear overstressed * 1000 / (beamWidth scenario * effectiveDepth overstressed)
     > tcMax_spec (concreteValue (fck scenario))
   \<and> stirrupSpacing (designBeam scenario overstressed) = 0
   \<and> \<not> shearReinforcementRequired (designBeam scenario overstressed)"
proof -
  have h: "maxShear overstressed * 1000 / (beamWidth scenario * effectiveDepth overstressed)
             > tcMax_spec (concreteValue (fck scenario))"
    by (simp add: overstressed_def scenario_def tcMax_spec_def)
  show ?thesis using h shear_failure_terminal [OF h] by simp
qed

subsection \<open>The concrete shear capacity\<close>

lemma points_nth:
  "points ! 0 = 0.15" "points ! Suc 0 = 0.25" "points ! Suc (Suc 0) = 0.5" "points ! 2 = 0.5" "points ! 3 = 0.75"
  "points ! 4 = 1.0" "points ! 5 = 1.25" "points ! 6 = 1.5" "points ! 7 = 2.0"
  "length points = 8"
  by (simp_all add: points_def)

lemma m20vals_nth:
  "m20vals ! 0 = 0.28" "m20vals ! Suc 0 = 0.36" "m20vals ! Suc (Suc 0) = 0.48" "m20vals ! 2 = 0.48" "m20vals ! 3 = 0.56"
  "m20vals ! 4 = 0.62" "m20vals ! 5 = 0.67" "m20vals ! 6 = 0.72" "m20vals ! 7 = 0.79"
  by (simp_all add: m20vals_def)

lemma findIdx_0: "findIdx p 0 = (if p > 0.25 then findIdx p (Suc 0) else 0)"
  by (subst findIdx.simps) (simp add: points_def eval_nat_numeral)
lemma findIdx_1: "findIdx p (Suc 0) = (if p > 0.5 then findIdx p 2 else 1)"
  by (subst findIdx.simps) (simp add: points_def eval_nat_numeral)
lemma findIdx_2: "findIdx p 2 = (if p > 0.75 then findIdx p 3 else 2)"
  by (subst findIdx.simps) (simp add: points_def eval_nat_numeral)
lemma findIdx_3: "findIdx p 3 = (if p > 1.0 then findIdx p 4 else 3)"
  by (subst findIdx.simps) (simp add: points_def eval_nat_numeral)
lemma findIdx_4: "findIdx p 4 = (if p > 1.25 then findIdx p 5 else 4)"
  by (subst findIdx.simps) (simp add: points_def eval_nat_numeral)
lemma findIdx_5: "findIdx p 5 = (if p > 1.5 then findIdx p 6 else 5)"
  by (subst findIdx.simps) (simp add: points_def eval_nat_numeral)
lemma findIdx_6: "findIdx p 6 = (if p > 2.0 then findIdx p 7 else 6)"
  by (subst findIdx.simps) (simp add: points_def eval_nat_numeral)
lemma findIdx_7: "findIdx p 7 = 7"
  by (subst findIdx.simps) (simp add: points_def eval_nat_numeral)

lemmas findIdx_unfold = findIdx_0 findIdx_1 findIdx_2 findIdx_3 findIdx_4 findIdx_5 findIdx_6 findIdx_7

lemma findIdx_high: "2 < p \<Longrightarrow> findIdx p 0 = 7"
  by (simp add: findIdx_unfold)

lemma findIdx_two: "findIdx 2 0 = 6"
  by (simp add: findIdx_unfold)

lemma spec_tauM20_unfold:
  "spec_tauM20 x =
     (if x \<le> 0.25 then 0.28 + (0.36 - 0.28) * (x - 0.15) / (0.25 - 0.15)
      else if x \<le> 0.5 then 0.36 + (0.48 - 0.36) * (x - 0.25) / (0.5 - 0.25)
      else if x \<le> 0.75 then 0.48 + (0.56 - 0.48) * (x - 0.5) / (0.75 - 0.5)
      else if x \<le> 1.0 then 0.56 + (0.62 - 0.56) * (x - 0.75) / (1.0 - 0.75)
      else if x \<le> 1.25 then 0.62 + (0.67 - 0.62) * (x - 1.0) / (1.25 - 1.0)
      else if x \<le> 1.5 then 0.67 + (0.72 - 0.67) * (x - 1.25) / (1.5 - 1.25)
      else if x \<le> 2.0 then 0.72 + (0.79 - 0.72) * (x - 1.5) / (2.0 - 1.5)
      else 0.79)"
  unfolding spec_tauM20_def points_def m20vals_def
  by (simp only: zip_Cons_Cons zip_Nil interpolate.simps)

lemma getTauC_code: "getTauC pt f = toFixed2 (code_tauM20 (min (max pt 0.15) 3.0) * (1 + (f - 20) * 0.01))"
  unfolding getTauC_def code_tauM20_def Let_def ..

lemma code_tauM20_cases:
  "x \<le> 0.25 \<Longrightarrow> code_tauM20 x = 0.28 + (0.36 - 0.28) * (x - 0.15) / (0.25 - 0.15)"
  "0.25 < x \<Longrightarrow> x \<le> 0.5 \<Longrightarrow> code_tauM20 x = 0.36 + (0.48 - 0.36) * (x - 0.25) / (0.5 - 0.25)"
  "0.5 < x \<Longrightarrow> x \<le> 0.75 \<Longrightarrow> code_tauM20 x = 0.48 + (0.56 - 0.48) * (x - 0.5) / (0.75 - 0.5)"
  "0.75 < x \<Longrightarrow> x \<le> 1.0 \<Longrightarrow> code_tauM20 x = 0.56 + (0.62 - 0.56) * (x - 0.75) / (1.0 - 0.75)"
  "1.0 < x \<Longrightarrow> x \<le> 1.25 \<Longrightarrow> code_tauM20 x = 0.62 + (0.67 - 0.62) * (x - 1.0) / (1.25 - 1.0)"
  "1.25 < x \<Longrightarrow> x \<le> 1.5 \<Longrightarrow> code_tauM20 x = 0.67 + (0.72 - 0.67) * (x - 1.25) / (1.5 - 1.25)"
  "1.5 < x \<Longrightarrow> x \<le> 2.0 \<Longrightarrow> code_tauM20 x = 0.72 + (0.79 - 0.72) * (x - 1.5) / (2.0 - 1.5)"
  "2.0 < x \<Longrightarrow> code_tauM20 x = 0.79"
  by (simp_all add: code_tauM20_def Let_def findIdx_unfold points_nth m20vals_nth)

lemma code_tauM20_spec: "code_tauM20 x = spec_tauM20 x"
proof -
  consider "x \<le> 0.25" | "0.25 < x \<and> x \<le> 0.5" | "0.5 < x \<and> x \<le> 0.75" | "0.75 < x \<and> x \<le> 1.0"
    | "1.0 < x \<and> x \<le> 1.25" | "1.25 < x \<and> x \<le> 1.5" | "1.5 < x \<and> x \<le> 2.0" | "2.0 < x"
    by linarith
  then show ?thesis
  proof cases
    case 1 then show ?thesis by (simp only: code_tauM20_cases spec_tauM20_unfold if_True)
  next
    case 2 then show ?thesis by (simp add: code_tauM20_cases spec_tauM20_unfold)
  next
    case 3 then show ?thesis by (simp add: code_tauM20_cases spec_tauM20_unfold)
  next
    case 4 then show ?thesis by (simp add: code_tauM20_cases spec_tauM20_unfold)
  next
    case 5 then show ?thesis by (simp add: code_tauM20_cases spec_tauM20_unfold)
  next
    case 6 then show ?thesis by (simp add: code_tauM20_cases spec_tauM20_unfold)
  next
    case 7 then show ?thesis by (simp add: code_tauM20_cases spec_tauM20_unfold)
  next
    case 8 then show ?thesis by (simp add: code_tauM20_cases spec_tauM20_unfold)
  qed
qed

lemma spec_tauM20_plateau: "2 \<le> x \<Longrightarrow> spec_tauM20 x = 0.79"
  by (simp add: spec_tauM20_unfold)

lemma toFixed2_grid: "\<exists>n::int. toFixed2 x = of_int n / 100"
  unfolding toFixed2_def by (cases "x < 0") (auto intro: exI [of _ "- \<lfloor>- x * 100 + 1 / 2\<rfloor>"])

lemma round_half_near:
  fixes y :: real
  shows "\<bar>of_int \<lfloor>y * 100 + 1 / 2\<rfloor> / 100 - y\<bar> \<le> 1 / 200"
proof -
  define n :: real where "n = of_int \<lfloor>y * 100 + 1 / 2\<rfloor>"
  have "n \<le> y * 100 + 1 / 2"
    unfolding n_def by (rule of_int_floor_le)
  moreover have "y * 100 + 1 / 2 < n + 1"
    unfolding n_def by linarith
  ultimately have "\<bar>n / 100 - y\<bar> \<le> 1 / 200" by linarith
  then show ?thesis unfolding n_def .
qed

lemma toFixed2_near: "\<bar>toFixed2 x - x\<bar> \<le> 1 / 200"
proof (cases "x < 0")
  case True
  have "\<bar>- (of_int \<lfloor>(- x) * 100 + 1 / 2\<rfloor> / 100) - x\<bar>
          = \<bar>of_int \<lfloor>(- x) * 100 + 1 / 2\<rfloor> / 100 - (- x)\<bar>"
    by linarith
  with True show ?thesis using round_half_near [of "- x"] by (simp only: toFixed2_def if_True)
next
  case False
  then show ?thesis using round_half_near [of x] by (simp only: toFixed2_def if_False)
qed


text \<open>
  Claim C10. For every concrete strength \<open>f\<close> and any two percentages of steel that are at
  least 2.0, \<^verbatim>\<open>getTauC\<close> returns the same capacity, the one of the last breakpoint 0.79;
  and for every percentage \<open>pt\<close> the value returned is the product of the M20 value
  interpolated in the breakpoint table at \<open>pt\<close> clamped to [0.15, 3.0] and of the grade
  factor \<open>1 + (f - 20) 0.01\<close>, rounded to two decimal places: it is a multiple of 1/100 and
  lies within 1/200 of the product.
\<close>

theorem tauC_plateau_and_rounding:
  assumes "2 \<le> pt1" and "2 \<le> pt2"
  shows "getTauC pt1 f = getTauC pt2 f
       \<and> getTauC pt1 f = toFixed2 (0.79 * (1 + (f - 20) * 0.01))
       \<and> getTauC pt f = toFixed2 (spec_tauM20 (min (max pt 0.15) 3.0) * (1 + (f - 20) * 0.01))
       \<and> (\<exists>n::int. getTauC pt f = of_int n / 100)
       \<and> \<bar>getTauC pt f - spec_tauM20 (min (max pt 0.15) 3.0) * (1 + (f - 20) * 0.01)\<bar> \<le> 1 / 200"
proof -
  have plateau: "getTauC q f = toFixed2 (0.79 * (1 + (f - 20) * 0.01))" if "2 \<le> q" for q
  proof -
    from that have "2 \<le> min (max q 0.15) 3.0" by simp
    then show ?thesis
      by (simp only: getTauC_code code_tauM20_spec spec_tauM20_plateau)
  qed
  have general: "getTauC pt f = toFixed2 (spec_tauM20 (min (max pt 0.15) 3.0) * (1 + (f - 20) * 0.01))"
    by (simp only: getTauC_code code_tauM20_spec)
  show ?thesis
    using plateau [OF assms(1)] plateau [OF assms(2)] general
      toFixed2_grid [of "spec_tauM20 (min (max pt 0.15) 3.0) * (1 + (f - 20) * 0.01)"]
      toFixed2_near [of "spec_tauM20 (min (max pt 0.15) 3.0) * (1 + (f - 20) * 0.01)"]
    by (simp only: simp_thms)
qed

theorem tauC_plateau_and_rounding_witness:
  "(2::real) \<le> 2.5 \<and> (2::real) \<le> 3.7 \<and> getTauC 2.5 25 = getTauC 3.7 25 \<and> getTauC 2.5 25 = 0.83"
proof -
  have h1: "(2::real) \<le> 2.5" and h2: "(2::real) \<le> 3.7" by simp_all
  have v: "toFixed2 (0.79 * (1 + (25 - 20) * 0.01)) = 0.83"
    by (simp add: toFixed2_def)
  note T = tauC_plateau_and_rounding [OF h1 h2, where f = 25 and pt = 1]
  have a: "getTauC 2.5 25 = getTauC 3.7 25"
    using T by (rule conjunct1)
  have b: "getTauC 2.5 25 = toFixed2 (0.79 * (1 + (25 - 20) * 0.01))"
    using T by (rule conjunct2 [THEN conjunct1])
  show ?thesis
    by (intro conjI h1 h2 a) (simp only: b v)
qed

section \<open>Deflection check\<close>

lemma checkDeflection_fields:
  "actualLbyD (checkDeflection spanM d astReq astProv b fy_n) = (spanM * 1000) / d"
  "basicLbyD (checkDeflection spanM d astReq astProv b fy_n) = 20"
  "allowableLbyD (checkDeflection spanM d astReq astProv b fy_n)
     = 20 * modificationFactorKt (checkDeflection spanM d astReq astProv b fy_n)"
  "deflectionCheckPassed (checkDeflection spanM d astReq astProv b fy_n)
     = (actualLbyD (checkDeflection spanM d astReq astProv b fy_n)
          \<le> allowableLbyD (checkDeflection spanM d astReq astProv b fy_n))"
  unfolding checkDeflection_def Let_def
  by (simp_all only: DeflectionResult.select_convs)

lemma checkDeflection_kt:
  "modificationFactorKt (checkDeflection spanM d astReq astProv b fy_n)
     = spec_kt (0.58 * fy_n * (astReq / astProv)) (max ((astProv / (b * d)) * 100) 0.1)"
  unfolding checkDeflection_def spec_kt_def Let_def
  by (simp only: DeflectionResult.select_convs min.commute [of _ "2.0"] max.commute [of _ "0.7"])

lemma spec_kt_range: "0.7 \<le> spec_kt fs pt \<and> spec_kt fs pt \<le> 2.0"
  unfolding spec_kt_def Let_def by (simp add: min_def max_def)

text \<open>
  Claim C8. For every deflection check, with \<open>pt = 100 Ast_provided / (b d)\<close> floored at
  0.1 and \<open>fs = 0.58 fy (Ast_required / Ast_provided)\<close>: the modification factor is
  \<open>1 / (0.225 + 0.0032 fs - 0.625 log10 pt)\<close> when that denominator is positive and 1.0
  otherwise, clamped into [0.7, 2.0]; the allowable ratio is 20 times the factor; the
  actual ratio is the span in mm over the effective depth; and the check passes exactly
  when the actual ratio is at most the allowable one.
\<close>

theorem deflection_check_formula:
  fixes spanM d astReq astProv b fy_n :: number
  defines "r \<equiv> checkDeflection spanM d astReq astProv b fy_n"
      and "pt \<equiv> max (100 * astProv / (b * d)) 0.1"
      and "fs \<equiv> 0.58 * fy_n * (astReq / astProv)"
  shows "modificationFactorKt r = spec_kt fs pt
       \<and> 0.7 \<le> modificationFactorKt r \<and> modificationFactorKt r \<le> 2.0
       \<and> allowableLbyD r = 20 * spec_kt fs pt
       \<and> actualLbyD r = (spanM * 1000) / d
       \<and> deflectionCheckPassed r = ((spanM * 1000) / d \<le> 20 * spec_kt fs pt)"
proof -
  have pt: "max ((astProv / (b * d)) * 100) 0.1 = pt"
    unfolding pt_def by (simp add: mult.commute)
  have kt: "modificationFactorKt r = spec_kt fs pt"
    unfolding r_def checkDeflection_kt pt fs_def ..
  show ?thesis
    using spec_kt_range [of fs pt]
    by (simp only: kt checkDeflection_fields [of spanM d astReq astProv b fy_n, folded r_def]
          simp_thms)
qed

subsection \<open>Monotonicity in the effective depth\<close>

lemma ln10_ge_2: "2 \<le> ln (10::real)"
proof -
  have "exp (2::real) = exp 1 * exp 1"
    by (simp add: exp_add [symmetric])
  also have "\<dots> \<le> 3 * 3"
    by (intro mult_mono exp_le) simp_all
  finally have "exp (2::real) \<le> 10" by simp
  then show ?thesis by (simp add: ln_ge_iff)
qed

lemma log10_growth:
  fixes x :: real
  assumes "1 < x"
  shows "5 / 8 * log 10 x \<le> (x - 1) / 2"
proof -
  have "ln x \<le> x - 1" using assms by (intro ln_le_minus_one) simp
  moreover have "0 \<le> ln x" using assms by simp
  ultimately have "ln x / ln 10 \<le> (x - 1) / 2"
    using ln10_ge_2 by (intro frac_le) simp_all
  moreover have "0 \<le> ln x / ln 10" using \<open>0 \<le> ln x\<close> ln10_ge_2 by simp
  ultimately show ?thesis
    by (simp add: log_def)
qed

lemma clampKt_step:
  fixes D1 D2 x :: real
  assumes x: "1 < x" and le: "D1 \<le> D2" and up: "D2 \<le> D1 + (x - 1) / 2"
  shows "clampKt D1 \<le> x * clampKt D2"
proof -
  consider (a) "D2 \<le> 0" | (b) "D1 \<le> 0" "0 < D2" | (c) "0 < D1"
    by linarith
  then show ?thesis
  proof cases
    case a
    with le have "D1 \<le> 0" by simp
    with a x show ?thesis by (simp add: clampKt_def)
  next
    case b
    have k1: "clampKt D1 = 1" using b by (simp add: clampKt_def)
    have "D2 \<le> x" using b up x by argo
    then have "1 \<le> x * (1 / D2)" using b by (simp add: field_simps)
    moreover have "1 \<le> x * 2" using x by simp
    moreover have "clampKt D2 = 2 \<or> 1 / D2 \<le> clampKt D2"
      using b by (simp add: clampKt_def min_def max_def)
    moreover have "0 < x" using x by simp
    ultimately show ?thesis
      unfolding k1 by (metis mult_left_mono less_imp_le order_trans)
  next
    case c
    then have d2: "0 < D2" using le by simp
    have k2: "clampKt D2 = 2 \<or> (0.7 \<le> clampKt D2 \<and> 1 / D2 \<le> clampKt D2)"
      using d2 by (simp add: clampKt_def min_def max_def)
    have k1: "clampKt D1 \<le> 2" by (simp add: clampKt_def)
    have k1': "clampKt D1 = 0.7 \<or> clampKt D1 * D1 \<le> 1"
      using c by (simp add: clampKt_def min_def max_def field_simps)
    have k1pos: "0 \<le> clampKt D1" by (simp add: clampKt_def min_def max_def)
    from k2 show ?thesis
    proof
      assume "clampKt D2 = 2"
      with k1 x show ?thesis by simp
    next
      assume h: "0.7 \<le> clampKt D2 \<and> 1 / D2 \<le> clampKt D2"
      from k1' show ?thesis
      proof
        assume "clampKt D1 = 0.7"
        moreover have "0.7 \<le> x * clampKt D2"
        proof -
          have "0.7 \<le> 1 * clampKt D2" using h by simp
          also have "\<dots> \<le> x * clampKt D2" using x h by (intro mult_right_mono) simp_all
          finally show ?thesis .
        qed
        ultimately show ?thesis by simp
      next
        assume e: "clampKt D1 * D1 \<le> 1"
        have "clampKt D1 * D2 \<le> clampKt D1 * (D1 + (x - 1) / 2)"
          using up k1pos by (intro mult_left_mono)
        also have "\<dots> = clampKt D1 * D1 + clampKt D1 * ((x - 1) / 2)"
          by (simp add: algebra_simps)
        also have "\<dots> \<le> 1 + 2 * ((x - 1) / 2)"
          using e k1 x by (intro add_mono mult_right_mono) simp_all
        finally have "clampKt D1 * D2 \<le> x" by argo
        then have "clampKt D1 \<le> x * (1 / D2)" using d2 by (simp add: field_simps)
        also have "\<dots> \<le> x * clampKt D2" using h x by (intro mult_left_mono) simp_all
        finally show ?thesis .
      qed
    qed
  qed
qed

lemma spec_kt_clampKt: "spec_kt fs pt = clampKt (0.225 + 0.0032 * fs - 0.625 * log 10 pt)"
  unfolding spec_kt_def clampKt_def Let_def ..

lemma checkDeflection_passed:
  "deflectionCheckPassed (checkDeflection spanM d astReq astProv b fy_n)
     = ((spanM * 1000) / d
          \<le> 20 * spec_kt (0.58 * fy_n * (astReq / astProv)) (max ((astProv / (b * d)) * 100) 0.1))"
  by (simp only: checkDeflection_fields checkDeflection_kt)

text \<open>The floored percentage of steel as a function of the effective depth.\<close>

lemma safePt_depth:
  fixes q d1 d2 :: real
  assumes d1: "0 < d1" and d12: "d1 < d2"
  defines "P \<equiv> \<lambda>d. max (q / d) 0.1"
  shows "P d2 \<le> P d1" and "P d1 \<le> (d2 / d1) * P d2" and "0 < P d1" and "0 < P d2"
proof -
  have d2: "0 < d2" using d1 d12 by simp
  have x: "1 < d2 / d1" using d1 d12 by simp
  show "0 < P d1" "0 < P d2" by (simp_all add: P_def less_max_iff_disj)
  show "P d2 \<le> P d1"
  proof (cases "0 \<le> q")
    case True
    then have "q / d2 \<le> q / d1" using d1 d12 by (intro divide_left_mono) simp_all
    then show ?thesis unfolding P_def by (intro max.mono) simp_all
  next
    case False
    then have "q < 0" by simp
    then have n1: "q / d1 \<le> 0" and n2: "q / d2 \<le> 0"
      using d1 d2 by (simp_all add: divide_nonpos_pos)
    have "q / d1 \<le> 0.1" by (rule order_trans [OF n1]) simp
    moreover have "q / d2 \<le> 0.1" by (rule order_trans [OF n2]) simp
    ultimately have "q / d1 \<le> 0.1" "q / d2 \<le> 0.1" .
    then show ?thesis unfolding P_def by (simp only: max_absorb2)
  qed
  have "q / d1 = (d2 / d1) * (q / d2)" using d1 d2 by simp
  moreover have "(d2 / d1) * (q / d2) \<le> (d2 / d1) * P d2"
    using x unfolding P_def by (intro mult_left_mono) simp_all
  moreover have "0.1 \<le> (d2 / d1) * P d2"
  proof -
    have "(0.1::real) \<le> 1 * P d2" unfolding P_def by simp
    also have "\<dots> \<le> (d2 / d1) * P d2"
      using x \<open>0 < P d2\<close> by (intro mult_right_mono) simp_all
    finally show ?thesis .
  qed
  ultimately show "P d1 \<le> (d2 / d1) * P d2"
    unfolding P_def by (intro max.boundedI) simp_all
qed

lemma kt_depth:
  fixes d1 d2 fs q :: real
  assumes d1: "0 < d1" and d12: "d1 < d2"
  shows "spec_kt fs (max (q / d1) 0.1) \<le> (d2 / d1) * spec_kt fs (max (q / d2) 0.1)"
proof -
  define x where "x = d2 / d1"
  have x: "1 < x" using d1 d12 by (simp add: x_def)
  define P1 where "P1 = max (q / d1) 0.1"
  define P2 where "P2 = max (q / d2) 0.1"
  from safePt_depth [OF d1 d12, of q]
  have P21: "P2 \<le> P1" and P12: "P1 \<le> x * P2" and P1: "0 < P1" and P2: "0 < P2"
    unfolding P1_def P2_def x_def by simp_all
  have L21: "log 10 P2 \<le> log 10 P1"
    using P21 P1 P2 by simp
  have "log 10 P1 \<le> log 10 (x * P2)"
    using P12 P1 P2 x by simp
  also have "\<dots> = log 10 x + log 10 P2"
    using x P2 by (simp add: log_mult)
  finally have L12: "log 10 P1 \<le> log 10 x + log 10 P2" .
  define D1 where "D1 = 0.225 + 0.0032 * fs - 0.625 * log 10 P1"
  define D2 where "D2 = 0.225 + 0.0032 * fs - 0.625 * log 10 P2"
  have le: "D1 \<le> D2" unfolding D1_def D2_def using L21 by simp
  have "D2 \<le> D1 + 5 / 8 * log 10 x" unfolding D1_def D2_def using L12 by (simp; linarith)
  then have up: "D2 \<le> D1 + (x - 1) / 2" using log10_growth [OF x] by argo
  from clampKt_step [OF x le up] show ?thesis
    unfolding spec_kt_clampKt D1_def D2_def P1_def P2_def x_def .
qed

text \<open>
  Claim C9. For two invocations of the deflection check that differ only in the effective
  depth, \<open>0 < d1 < d2\<close>, on a beam of positive span (the invariant of the data model), the
  actual span/depth ratio is strictly smaller at \<open>d2\<close>, and a check that passes at \<open>d1\<close>
  passes at \<open>d2\<close>. The allowable ratio also falls with the depth, because the percentage
  of steel does; it falls by less than the actual ratio does, since the modification
  factor is at most 2 and \<open>0.625 log10 x \<le> (x - 1) / 2\<close>.
\<close>

theorem deflection_depth_monotone:
  assumes d1: "0 < d1" and d12: "d1 < d2" and span: "0 < spanM"
  shows "actualLbyD (checkDeflection spanM d2 astReq astProv b fy_n)
           < actualLbyD (checkDeflection spanM d1 astReq astProv b fy_n)
       \<and> (deflectionCheckPassed (checkDeflection spanM d1 astReq astProv b fy_n)
            \<longrightarrow> deflectionCheckPassed (checkDeflection spanM d2 astReq astProv b fy_n))"
proof (intro conjI impI)
  have d2: "0 < d2" using d1 d12 by simp
  have S: "0 < spanM * 1000" using span by simp
  show "actualLbyD (checkDeflection spanM d2 astReq astProv b fy_n)
           < actualLbyD (checkDeflection spanM d1 astReq astProv b fy_n)"
    unfolding checkDeflection_fields using S d1 d12 by (intro divide_strict_left_mono) simp_all
  define fs where "fs = 0.58 * fy_n * (astReq / astProv)"
  define q where "q = astProv / b * 100"
  have pt: "(astProv / (b * d)) * 100 = q / d" for d
    by (simp add: q_def)
  define k1 where "k1 = spec_kt fs (max (q / d1) 0.1)"
  define k2 where "k2 = spec_kt fs (max (q / d2) 0.1)"
  have step: "k1 \<le> (d2 / d1) * k2"
    unfolding k1_def k2_def by (rule kt_depth [OF d1 d12])
  assume "deflectionCheckPassed (checkDeflection spanM d1 astReq astProv b fy_n)"
  then have "(spanM * 1000) / d1 \<le> 20 * k1"
    unfolding checkDeflection_passed pt k1_def fs_def .
  also have "\<dots> \<le> 20 * ((d2 / d1) * k2)" using step by simp
  finally have "(spanM * 1000) / d1 \<le> 20 * ((d2 / d1) * k2)" .
  then have "spanM * 1000 \<le> 20 * k2 * d2" using d1 by (simp add: field_simps)
  then have "(spanM * 1000) / d2 \<le> 20 * k2" using d2 by (simp add: field_simps)
  then show "deflectionCheckPassed (checkDeflection spanM d2 astReq astProv b fy_n)"
    unfolding checkDeflection_passed pt k2_def fs_def .
qed

theorem deflection_depth_monotone_witness:
  "(0::real) < 425 \<and> (425::real) < 500 \<and> (0::real) < 3
   \<and> actualLbyD (checkDeflection 3 500 600 804 230 500) < actualLbyD (checkDeflection 3 425 600 804 230 500)
   \<and> deflectionCheckPassed (checkDeflection 3 425 600 804 230 500)
   \<and> deflectionCheckPassed (checkDeflection 3 500 600 804 230 500)"
proof -
  have h1: "(0::real) < 425" and h2: "(425::real) < 500" and h3: "(0::real) < 3" by simp_all
  note T = deflection_depth_monotone [OF h1 h2 h3, of 600 804 230 500]
  have "(3 * 1000) / 425 \<le> 20 * (0.7::real)" by simp
  also have "\<dots> \<le> 20 * spec_kt (0.58 * 500 * (600 / 804)) (max ((804 / (230 * 425)) * 100) 0.1)"
    using spec_kt_range [of "0.58 * 500 * (600 / 804)" "max ((804 / (230 * 425)) * 100) 0.1"] by simp
  finally have p1: "deflectionCheckPassed (checkDeflection 3 425 600 804 230 500)"
    unfolding checkDeflection_passed .
  from T p1 show ?thesis using h1 h2 h3 by blast
qed

end
